theory Spec2Isabelle
  imports Main "HOL-Library.AList"
begin

section \<open>The data model (todoapp/models.py)\<close>

text \<open>
  A Python \<open>str\<close> is modelled as a \<open>string\<close>, one \<open>char\<close> per character (texts over the
  first 256 code points). A primary key and a timestamp are natural numbers.
\<close>

definition PRIORITY_CHOICES :: "(string \<times> string) list" where
  "PRIORITY_CHOICES = [(''High'', ''High''), (''Medium'', ''Medium''), (''Low'', ''Low'')]"

definition STATUS_CHOICES :: "(string \<times> string) list" where
  "STATUS_CHOICES = [(''Pending'', ''Pending''), (''Completed'', ''Completed'')]"

text \<open>
  \<open>class Task(models.Model)\<close>: the implicit auto-increment primary key \<open>pk\<close>, the nullable
  foreign key \<open>user\<close> (the owner's primary key, \<open>None\<close> for NULL), the nullable \<open>title\<close> and
  \<open>description\<close>, and the three fields that are never NULL.
\<close>

record Task =
  pk :: nat
  user :: "nat option"
  title :: "string option"
  description :: "string option"
  status :: string
  created :: nat
  priority :: string

text \<open>\<open>django.contrib.auth.models.User\<close>, as far as this application reads it.\<close>

record User =
  uid :: nat
  username :: string
  password :: string

text \<open>
  The persistent store: the two tables with their rows in insertion order, and the
  auto-increment counter of each table (the next primary key; a key is never reused).
\<close>

record database =
  task_table :: "Task list"
  task_seq :: nat
  user_table :: "User list"
  user_seq :: nat

definition empty_database :: database where
  "empty_database = \<lparr>task_table = [], task_seq = 1, user_table = [], user_seq = 1\<rparr>"

text \<open>
  The keyword arguments of \<open>Task.objects.create(**kwargs)\<close>; \<open>None\<close> is an argument that is
  not passed. A field that is not passed takes the default its declaration gives:
  \<open>null=True\<close> fields are NULL, \<open>status\<close> is \<open>default='Incomplete'\<close>, \<open>priority\<close> is
  \<open>default='Medium'\<close>. The primary key and \<open>created\<close> of an instance are set by its
  first save; until then they hold 0 here.
\<close>

record Task_kwargs =
  kw_user :: "nat option"
  kw_title :: "string option"
  kw_description :: "string option"
  kw_status :: "string option"
  kw_priority :: "string option"

definition status_default :: string where
  "status_default = ''Incomplete''"

definition priority_default :: string where
  "priority_default = ''Medium''"

definition Task_init :: "Task_kwargs \<Rightarrow> Task" where
  "Task_init kw =
     \<lparr>pk = 0, user = kw_user kw, title = kw_title kw, description = kw_description kw,
      status = (case kw_status kw of None \<Rightarrow> status_default | Some s \<Rightarrow> s),
      created = 0,
      priority = (case kw_priority kw of None \<Rightarrow> priority_default | Some p \<Rightarrow> p)\<rparr>"

text \<open>
  \<open>Model.save()\<close> of an instance that is not in the table yet: an INSERT. The row gets the
  next primary key, and \<open>auto_now_add=True\<close> sets \<open>created\<close> to the current time \<open>now\<close>.
\<close>

definition Task_insert :: "nat \<Rightarrow> Task \<Rightarrow> database \<Rightarrow> Task \<times> database" where
  "Task_insert now t db =
     (let row = t\<lparr>pk := task_seq db, created := now\<rparr>
      in (row, db\<lparr>task_table := task_table db @ [row], task_seq := Suc (task_seq db)\<rparr>))"

definition Task_objects_create :: "nat \<Rightarrow> Task_kwargs \<Rightarrow> database \<Rightarrow> Task \<times> database" where
  "Task_objects_create now kw db = Task_insert now (Task_init kw) db"

text \<open>
  \<open>Model.save()\<close> of an instance that came from the table: an UPDATE of the row with the
  instance's primary key. \<open>auto_now_add\<close> does not touch \<open>created\<close> here.
\<close>

definition Task_update :: "Task \<Rightarrow> database \<Rightarrow> database" where
  "Task_update t db =
     db\<lparr>task_table := map (\<lambda>r. if pk r = pk t then t else r) (task_table db)\<rparr>"

text \<open>\<open>Model.delete()\<close>: a DELETE of the row with the instance's primary key.\<close>

definition Task_delete :: "Task \<Rightarrow> database \<Rightarrow> database" where
  "Task_delete t db = db\<lparr>task_table := filter (\<lambda>r. pk r \<noteq> pk t) (task_table db)\<rparr>"

text \<open>
  \<open>Task.objects.all()\<close>, the queryset of the generic views (\<open>model = Task\<close>). The model
  declares no ordering: the rows are taken in table order, that is by primary key, which
  is what \<open>test_task_list_authenticated_user\<close> of todoapp/tests.py expects.
\<close>

definition Task_objects_all :: "database \<Rightarrow> Task list" where
  "Task_objects_all db = task_table db"

text \<open>\<open>queryset.filter(user=u)\<close> for a user \<open>u\<close>: the rows whose foreign key is \<open>u\<close>'s key.\<close>

definition filter_user :: "nat \<Rightarrow> Task list \<Rightarrow> Task list" where
  "filter_user u qs = filter (\<lambda>t. user t = Some u) qs"

text \<open>\<open>queryset.filter(pk=k).get()\<close>: the row with that key, or \<open>DoesNotExist\<close>.\<close>

definition get_by_pk :: "nat \<Rightarrow> Task list \<Rightarrow> Task option" where
  "get_by_pk k qs = find (\<lambda>t. pk t = k) qs"

section \<open>Requests, responses and the framework's login gate\<close>

datatype http_method = GET | POST

text \<open>
  What a view reads of \<open>self.request\<close>: the method, \<open>request.path\<close>, the raw query string
  (\<open>META['QUERY_STRING']\<close>), \<open>request.user\<close> (the primary key of the session's user,
  \<open>None\<close> for \<open>AnonymousUser\<close>), \<open>request.POST\<close> (each key with the value \<open>QueryDict.get\<close>
  returns) and the time of the request (\<open>timezone.now()\<close>).
\<close>

record request =
  req_method :: http_method
  req_path :: string
  req_query :: string
  req_user :: "nat option"
  req_POST :: "string \<rightharpoonup> string"
  req_now :: nat

text \<open>
  The value of a template context entry, and a response: a rendered template with its
  context, a redirect to a location, a 404 and a 405.
\<close>

datatype context_value =
    QuerySet "Task list"
  | Instance Task
  | Form "(string \<times> string list) list"

datatype response =
    TemplateResponse string "(string \<times> context_value) list"
  | HttpResponseRedirect string
  | Http404
  | HttpResponseNotAllowed

type_synonym view = "request \<Rightarrow> database \<Rightarrow> response \<times> database"

text \<open>
  Modelled from the spec: urls.py is not among the sources. \<open>reverse_lazy('task')\<close> is the
  path of the task list in the spec's route table, \<open>/\<close>.
\<close>

definition task_url :: string where
  "task_url = ''/''"

text \<open>
  Modelled from the spec: urls.py is not among the sources. \<open>reverse_lazy('register')\<close> is
  the path of the registration page in the spec's route table, \<open>/register/\<close>.
\<close>

definition register_url :: string where
  "register_url = ''/register/''"

text \<open>
  Modelled from the spec: settings.py is not among the sources. \<open>settings.LOGIN_URL\<close>
  resolves to the login page of the spec's route table, \<open>/login/\<close>.
\<close>

definition LOGIN_URL :: string where
  "LOGIN_URL = ''/login/''"

text \<open>\<open>django.contrib.auth.REDIRECT_FIELD_NAME\<close>.\<close>

definition REDIRECT_FIELD_NAME :: string where
  "REDIRECT_FIELD_NAME = ''next''"

text \<open>
  \<open>urllib.parse.quote(s, safe)\<close>: letters, digits, \<open>_.-~\<close> and the characters of \<open>safe\<close>
  stay; every other character is written as \<open>%XX\<close> for each byte of its UTF-8 encoding.
\<close>

definition always_safe :: "char \<Rightarrow> bool" where
  "always_safe c =
     (c \<in> set ''ABCDEFGHIJKLMNOPQRSTUVWXYZabcdefghijklmnopqrstuvwxyz0123456789_.-~'')"

definition utf8_encode :: "char \<Rightarrow> nat list" where
  "utf8_encode c =
     (let n = (of_char c :: nat) in if n < 128 then [n] else [192 + n div 64, 128 + n mod 64])"

definition hex_digit :: "nat \<Rightarrow> char" where
  "hex_digit n = ''0123456789ABCDEF'' ! (n mod 16)"

definition percent_byte :: "nat \<Rightarrow> string" where
  "percent_byte b = [CHR ''%'', hex_digit (b div 16), hex_digit b]"

definition quote_char :: "string \<Rightarrow> char \<Rightarrow> string" where
  "quote_char safe c =
     (if (of_char c :: nat) < 128 \<and> (always_safe c \<or> c \<in> set safe) then [c]
      else concat (map percent_byte (utf8_encode c)))"

definition quote :: "string \<Rightarrow> string \<Rightarrow> string" where
  "quote safe s = concat (map (quote_char safe) s)"

text \<open>\<open>django.utils.encoding\<close>: \<open>escape_uri_path\<close> and \<open>iri_to_uri\<close>.\<close>

definition escape_uri_path :: "string \<Rightarrow> string" where
  "escape_uri_path p = quote (''/:@&+$,-_.!~*'' @ [CHR 0x27] @ ''()'') p"

definition iri_to_uri :: "string \<Rightarrow> string" where
  "iri_to_uri i = quote (''/#%[]=:;$&()+,!?*@'' @ [CHR 0x27] @ ''~'') i"

text \<open>\<open>HttpRequest.get_full_path()\<close>: the path, and the query string when there is one.\<close>

definition get_full_path :: "request \<Rightarrow> string" where
  "get_full_path req =
     escape_uri_path (req_path req) @
     (if req_query req = [] then [] else ''?'' @ iri_to_uri (req_query req))"

text \<open>
  \<open>redirect_to_login(next, login_url, redirect_field_name)\<close>, for a login URL that has no
  query string of its own: the query string becomes \<open>QueryDict.urlencode(safe='/')\<close> of
  the one pair.
\<close>

definition redirect_to_login :: "string \<Rightarrow> string \<Rightarrow> string \<Rightarrow> response" where
  "redirect_to_login next login_url redirect_field_name =
     HttpResponseRedirect
       (login_url @ ''?'' @ quote ''/'' redirect_field_name @ ''='' @ quote ''/'' next)"

text \<open>
  \<open>AccessMixin.handle_no_permission\<close> for an anonymous user (\<open>raise_exception\<close> is False):
  the login URL is relative, so the \<open>next\<close> value is \<open>request.get_full_path()\<close>.
\<close>

definition handle_no_permission :: "request \<Rightarrow> response" where
  "handle_no_permission req = redirect_to_login (get_full_path req) LOGIN_URL REDIRECT_FIELD_NAME"

text \<open>
  \<open>LoginRequiredMixin.dispatch\<close>: an anonymous request ends here, before the method is
  even looked at; otherwise the view's handler runs, with \<open>self.request.user\<close> the
  authenticated user.
\<close>

definition LoginRequiredMixin_dispatch :: "(nat \<Rightarrow> view) \<Rightarrow> view" where
  "LoginRequiredMixin_dispatch handler req db =
     (case req_user req of
        None \<Rightarrow> (handle_no_permission req, db)
      | Some u \<Rightarrow> handler u req db)"

section \<open>The model form of the create and update views\<close>

text \<open>\<open>str.strip()\<close>: the characters for which \<open>str.isspace\<close> holds, below code point 256.\<close>

definition is_space :: "char \<Rightarrow> bool" where
  "is_space c = ((of_char c :: nat) \<in> {9, 10, 11, 12, 13, 28, 29, 30, 31, 32, 133, 160})"

definition strip :: "string \<Rightarrow> string" where
  "strip s = rev (dropWhile is_space (rev (dropWhile is_space s)))"

text \<open>
  \<open>forms.CharField.clean\<close> as the model fields \<open>title\<close> and \<open>description\<close> configure it
  (\<open>strip=True\<close>): the value is stripped; an empty one is an error when the field is
  required and the field's \<open>empty_value\<close> otherwise; the validators (\<open>max_length\<close>, no NUL
  character) run on a value that is not empty. The \<open>empty_value\<close> is \<open>None\<close> for the form
  field of a nullable \<open>models.CharField\<close> (\<open>title\<close>) and the empty string for the form field
  of a \<open>models.TextField\<close> (\<open>description\<close>), nullable or not.
\<close>

definition CharField_clean :: "bool \<Rightarrow> nat option \<Rightarrow> string option \<Rightarrow> string option \<Rightarrow> string list + string option" where
  "CharField_clean required max_length empty_value raw =
     (let v = (case raw of None \<Rightarrow> [] | Some s \<Rightarrow> strip s)
      in if v = [] then (if required then Inl [''required''] else Inr empty_value)
         else
           (let errs =
                  (case max_length of
                     None \<Rightarrow> []
                   | Some m \<Rightarrow> if m < length v then [''max_length''] else []) @
                  (if CHR 0x00 \<in> set v then [''null_characters_not_allowed''] else [])
            in if errs = [] then Inr (Some v) else Inl errs))"

text \<open>
  \<open>forms.TypedChoiceField.clean\<close> as the model fields \<open>status\<close> and \<open>priority\<close> configure
  it: the value is not stripped, and it has to be a key of the declared choices.
\<close>

definition TypedChoiceField_clean :: "bool \<Rightarrow> (string \<times> string) list \<Rightarrow> string option \<Rightarrow> string list + string" where
  "TypedChoiceField_clean required choices raw =
     (let v = (case raw of None \<Rightarrow> [] | Some s \<Rightarrow> s)
      in if v = [] then (if required then Inl [''required''] else Inr [])
         else if v \<in> set (map fst choices) then Inr v
         else Inl [''invalid_choice''])"

text \<open>
  The form of \<open>fields = ["title", "description", "status", "priority"]\<close>. A field is
  required when its model field is not \<open>blank=True\<close>: all but \<open>description\<close>. Only these
  four keys of the submitted data are read.
\<close>

record cleaned_data =
  cd_title :: "string option"
  cd_description :: "string option"
  cd_status :: string
  cd_priority :: string

fun errors_of :: "string \<Rightarrow> string list + 'a \<Rightarrow> (string \<times> string list) list" where
  "errors_of name (Inl es) = [(name, es)]"
| "errors_of name (Inr v) = []"

definition TaskForm_clean :: "(string \<rightharpoonup> string) \<Rightarrow> (string \<times> string list) list + cleaned_data" where
  "TaskForm_clean data =
     (let t = CharField_clean True (Some 200) None (data ''title'');
          d = CharField_clean False None (Some []) (data ''description'');
          s = TypedChoiceField_clean True STATUS_CHOICES (data ''status'');
          p = TypedChoiceField_clean True PRIORITY_CHOICES (data ''priority'');
          errs = errors_of ''title'' t @ errors_of ''description'' d @
                 errors_of ''status'' s @ errors_of ''priority'' p
      in case t of Inl e \<Rightarrow> Inl errs | Inr tv \<Rightarrow>
         (case d of Inl e \<Rightarrow> Inl errs | Inr dv \<Rightarrow>
         (case s of Inl e \<Rightarrow> Inl errs | Inr sv \<Rightarrow>
         (case p of Inl e \<Rightarrow> Inl errs | Inr pv \<Rightarrow>
            Inr \<lparr>cd_title = tv, cd_description = dv, cd_status = sv, cd_priority = pv\<rparr>))))"

text \<open>
  \<open>construct_instance\<close>: the cleaned value of each form field is written to the instance.
  (Its rule that keeps the model's default applies to a field with a default whose value
  is absent and empty; \<open>status\<close> and \<open>priority\<close> are required, so a valid form has them.)
\<close>

definition construct_instance :: "cleaned_data \<Rightarrow> Task \<Rightarrow> Task" where
  "construct_instance cd t =
     t\<lparr>title := cd_title cd, description := cd_description cd,
       status := cd_status cd, priority := cd_priority cd\<rparr>"

text \<open>
  \<open>form.instance\<close> after the validation of the form: \<open>_post_clean\<close> runs \<open>construct_instance\<close>
  whether the form is valid or not, and a field with an error is not in \<open>cleaned_data\<close>,
  so exactly the fields without an error are written to the instance.
\<close>

definition TaskForm_instance :: "(string \<rightharpoonup> string) \<Rightarrow> Task \<Rightarrow> Task" where
  "TaskForm_instance data t =
     (let t1 = (case CharField_clean True (Some 200) None (data ''title'') of
                  Inl e \<Rightarrow> t | Inr v \<Rightarrow> t\<lparr>title := v\<rparr>);
          t2 = (case CharField_clean False None (Some []) (data ''description'') of
                  Inl e \<Rightarrow> t1 | Inr v \<Rightarrow> t1\<lparr>description := v\<rparr>);
          t3 = (case TypedChoiceField_clean True STATUS_CHOICES (data ''status'') of
                  Inl e \<Rightarrow> t2 | Inr v \<Rightarrow> t2\<lparr>status := v\<rparr>)
      in case TypedChoiceField_clean True PRIORITY_CHOICES (data ''priority'') of
           Inl e \<Rightarrow> t3 | Inr v \<Rightarrow> t3\<lparr>priority := v\<rparr>)"

definition no_kwargs :: Task_kwargs where
  "no_kwargs = \<lparr>kw_user = None, kw_title = None, kw_description = None,
                 kw_status = None, kw_priority = None\<rparr>"

section \<open>The task views (todoapp/views.py)\<close>

text \<open>
  \<open>class TaskList(LoginRequiredMixin, ListView)\<close>. \<open>ListView\<close> puts the queryset of all
  tasks into the context twice, as \<open>object_list\<close> and under \<open>context_object_name\<close>;
  \<open>get_context_data\<close> of the view then replaces the entry \<open>task\<close> with the rows of the
  requesting user.
\<close>

definition ListView_get_context_data :: "database \<Rightarrow> (string \<times> context_value) list" where
  "ListView_get_context_data db =
     [(''object_list'', QuerySet (Task_objects_all db)), (''task'', QuerySet (Task_objects_all db))]"

definition TaskList_get_context_data :: "nat \<Rightarrow> database \<Rightarrow> (string \<times> context_value) list" where
  "TaskList_get_context_data u db =
     (let context = ListView_get_context_data db
      in case map_of context ''task'' of
           Some (QuerySet qs) \<Rightarrow> AList.update ''task'' (QuerySet (filter_user u qs)) context
         | _ \<Rightarrow> context)"

definition TaskList_view :: view where
  "TaskList_view =
     LoginRequiredMixin_dispatch (\<lambda>u req db.
       case req_method req of
         GET \<Rightarrow> (TemplateResponse ''todoapp/task_list.html'' (TaskList_get_context_data u db), db)
       | POST \<Rightarrow> (HttpResponseNotAllowed, db))"

text \<open>
  \<open>class TaskDetail(LoginRequiredMixin, DetailView)\<close>: \<open>get_object\<close> looks the row up by the
  primary key of the URL in the queryset of all tasks.
\<close>

definition object_context :: "Task \<Rightarrow> (string \<times> context_value) list" where
  "object_context t = [(''object'', Instance t), (''task'', Instance t)]"

definition TaskDetail_view :: "nat \<Rightarrow> view" where
  "TaskDetail_view k =
     LoginRequiredMixin_dispatch (\<lambda>u req db.
       case req_method req of
         GET \<Rightarrow>
           (case get_by_pk k (Task_objects_all db) of
              None \<Rightarrow> (Http404, db)
            | Some t \<Rightarrow> (TemplateResponse ''todoapp/task.html'' (object_context t), db))
       | POST \<Rightarrow> (HttpResponseNotAllowed, db))"

text \<open>
  \<open>class TaskCreate(LoginRequiredMixin, CreateView)\<close>. A POST with a valid form runs
  \<open>form_valid\<close>: \<open>form.instance.user = self.request.user\<close>, then the instance is saved and
  the response redirects to \<open>success_url\<close>.
\<close>

definition TaskCreate_form_valid :: "nat \<Rightarrow> request \<Rightarrow> Task \<Rightarrow> database \<Rightarrow> response \<times> database" where
  "TaskCreate_form_valid u req instance db =
     (let instance' = instance\<lparr>user := Some u\<rparr>
      in (HttpResponseRedirect task_url, snd (Task_insert (req_now req) instance' db)))"

definition TaskCreate_view :: view where
  "TaskCreate_view =
     LoginRequiredMixin_dispatch (\<lambda>u req db.
       case req_method req of
         GET \<Rightarrow> (TemplateResponse ''todoapp/task_form.html'' [(''form'', Form [])], db)
       | POST \<Rightarrow>
           (case TaskForm_clean (req_POST req) of
              Inl errs \<Rightarrow> (TemplateResponse ''todoapp/task_form.html'' [(''form'', Form errs)], db)
            | Inr cd \<Rightarrow> TaskCreate_form_valid u req (construct_instance cd (Task_init no_kwargs)) db))"

text \<open>
  \<open>class TaskUpdate(LoginRequiredMixin, UpdateView)\<close>: the object is looked up as in the
  detail view; a POST with a valid form saves the instance with the four form fields
  overwritten. The form works on the looked-up object itself, so the page of an invalid
  POST shows the object with the valid fields already written to it, in memory only.
\<close>

definition TaskUpdate_view :: "nat \<Rightarrow> view" where
  "TaskUpdate_view k =
     LoginRequiredMixin_dispatch (\<lambda>u req db.
       case get_by_pk k (Task_objects_all db) of
         None \<Rightarrow> (Http404, db)
       | Some t \<Rightarrow>
           (case req_method req of
              GET \<Rightarrow>
                (TemplateResponse ''todoapp/task_form.html'' (object_context t @ [(''form'', Form [])]), db)
            | POST \<Rightarrow>
                (case TaskForm_clean (req_POST req) of
                   Inl errs \<Rightarrow>
                     (TemplateResponse ''todoapp/task_form.html''
                        (object_context (TaskForm_instance (req_POST req) t) @
                         [(''form'', Form errs)]), db)
                 | Inr cd \<Rightarrow>
                     (HttpResponseRedirect task_url, Task_update (construct_instance cd t) db))))"

text \<open>
  \<open>class TaskDelete(LoginRequiredMixin, DeleteView)\<close>: a GET renders the confirmation
  page, a POST deletes the object and redirects to \<open>success_url\<close>.
\<close>

definition TaskDelete_view :: "nat \<Rightarrow> view" where
  "TaskDelete_view k =
     LoginRequiredMixin_dispatch (\<lambda>u req db.
       case get_by_pk k (Task_objects_all db) of
         None \<Rightarrow> (Http404, db)
       | Some t \<Rightarrow>
           (case req_method req of
              GET \<Rightarrow>
                (TemplateResponse ''todoapp/task_confirm_delete.html''
                   (object_context t @ [(''form'', Form [])]), db)
            | POST \<Rightarrow> (HttpResponseRedirect task_url, Task_delete t db)))"

text \<open>
  Modelled from the spec: urls.py is not among the sources. The protected routes of the
  spec's route table, the path of each (the primary key in decimal, as \<open>reverse\<close> writes
  it), and the view each is bound to.
\<close>

datatype route =
    TaskListRoute
  | TaskDetailRoute nat
  | TaskCreateRoute
  | TaskUpdateRoute nat
  | TaskDeleteRoute nat





fun protected_view :: "route \<Rightarrow> view" where
  "protected_view TaskListRoute = TaskList_view"
| "protected_view (TaskDetailRoute k) = TaskDetail_view k"
| "protected_view TaskCreateRoute = TaskCreate_view"
| "protected_view (TaskUpdateRoute k) = TaskUpdate_view k"
| "protected_view (TaskDeleteRoute k) = TaskDelete_view k"

text \<open>\<open>response.context[key]\<close> of a rendered response.\<close>

definition response_context :: "response \<Rightarrow> string \<Rightarrow> context_value option" where
  "response_context r key = (case r of TemplateResponse t ctx \<Rightarrow> map_of ctx key | _ \<Rightarrow> None)"

section \<open>The registration view (todoapp/views.py)\<close>

text \<open>
  \<open>UserCreationForm\<close> is the framework's form, and its password rules come from the
  settings: here it is a parameter that, from the user table and the submitted data,
  gives either the form's errors or the cleaned username and the hashed password.
\<close>

type_synonym UserCreationForm =
  "User list \<Rightarrow> (string \<rightharpoonup> string) \<Rightarrow> (string \<times> string list) list + (string \<times> string)"

definition is_authenticated :: "request \<Rightarrow> bool" where
  "is_authenticated req = (req_user req \<noteq> None)"

text \<open>\<open>form.save()\<close>: the new user is inserted into the user table.\<close>

definition User_insert :: "string \<Rightarrow> string \<Rightarrow> database \<Rightarrow> User \<times> database" where
  "User_insert name pw db =
     (let row = \<lparr>uid = user_seq db, username = name, password = pw\<rparr>
      in (row, db\<lparr>user_table := user_table db @ [row], user_seq := Suc (user_seq db)\<rparr>))"

text \<open>\<open>login(request, user)\<close>: the session of the request now belongs to the user.\<close>

definition login :: "request \<Rightarrow> User \<Rightarrow> request" where
  "login req usr = req\<lparr>req_user := Some (uid usr)\<rparr>"

text \<open>
  \<open>class UserRegister(FormView)\<close>. \<open>form_valid\<close> saves the form and logs the new user in;
  \<open>get\<close> sends an authenticated requester to the task list and otherwise renders the
  empty form; \<open>post\<close> is \<open>FormView\<close>'s. The request is returned with the response, since
  \<open>login\<close> changes it.
\<close>

definition UserRegister_form_valid :: "string \<times> string \<Rightarrow> request \<Rightarrow> database \<Rightarrow> response \<times> request \<times> database" where
  "UserRegister_form_valid cleaned req db =
     (let (usr, db') = User_insert (fst cleaned) (snd cleaned) db
      in (HttpResponseRedirect register_url, login req usr, db'))"

definition UserRegister_get :: "request \<Rightarrow> database \<Rightarrow> response \<times> request \<times> database" where
  "UserRegister_get req db =
     (if is_authenticated req then (HttpResponseRedirect task_url, req, db)
      else (TemplateResponse ''todoapp/register.html'' [(''form'', Form [])], req, db))"

definition UserRegister_post :: "UserCreationForm \<Rightarrow> request \<Rightarrow> database \<Rightarrow> response \<times> request \<times> database" where
  "UserRegister_post form req db =
     (case form (user_table db) (req_POST req) of
        Inl errs \<Rightarrow> (TemplateResponse ''todoapp/register.html'' [(''form'', Form errs)], req, db)
      | Inr cleaned \<Rightarrow> UserRegister_form_valid cleaned req db)"

definition UserRegister_view :: "UserCreationForm \<Rightarrow> request \<Rightarrow> database \<Rightarrow> response \<times> request \<times> database" where
  "UserRegister_view form req db =
     (case req_method req of
        GET \<Rightarrow> UserRegister_get req db
      | POST \<Rightarrow> UserRegister_post form req db)"

section \<open>The store's invariant\<close>

text \<open>
  Primary keys grow along the table and stay below the counter: the rows are in the
  order in which they were created.
\<close>

definition wf_db :: "database \<Rightarrow> bool" where
  "wf_db db = (sorted_wrt (<) (map pk (task_table db)) \<and>
               list_all (\<lambda>t. pk t < task_seq db) (task_table db))"

section \<open>The stores the application can reach\<close>

text \<open>
  From the empty store, by the model's \<open>create\<close> (as the tests and the admin use it), by
  a request to one of the task views, or by a request to the registration view.
\<close>

inductive reachable :: "database \<Rightarrow> bool" where
  reachable_empty: "reachable empty_database"
| reachable_create: "reachable db \<Longrightarrow> reachable (snd (Task_objects_create now kw db))"
| reachable_view: "reachable db \<Longrightarrow> reachable (snd (protected_view r req db))"
| reachable_register: "reachable db \<Longrightarrow> reachable (snd (snd (UserRegister_view form req db)))"

section \<open>The fixture of the repository's tests\<close>

text \<open>
  The store after \<open>TaskListViewTestCase.setUp\<close> of todoapp/tests.py: the users \<open>testuser\<close>
  and \<open>otheruser\<close>, two tasks of the first and, created last, one task of the second.
\<close>

definition task1 :: Task where
  "task1 = \<lparr>pk = 1, user = Some 1, title = Some ''Task 1'', description = None,
            status = ''Incomplete'', created = 10, priority = ''Medium''\<rparr>"

definition task2 :: Task where
  "task2 = \<lparr>pk = 2, user = Some 1, title = Some ''Task 2'', description = None,
            status = ''Incomplete'', created = 11, priority = ''Medium''\<rparr>"

definition task3 :: Task where
  "task3 = \<lparr>pk = 3, user = Some 2, title = Some ''Other User Task'', description = None,
            status = ''Incomplete'', created = 12, priority = ''Medium''\<rparr>"

definition setUp_db :: database where
  "setUp_db =
     \<lparr>task_table = [task1, task2, task3], task_seq = 4,
      user_table = [\<lparr>uid = 1, username = ''testuser'', password = ''pbkdf2_sha256$1''\<rparr>,
                    \<lparr>uid = 2, username = ''otheruser'', password = ''pbkdf2_sha256$2''\<rparr>],
      user_seq = 3\<rparr>"

text \<open>The form data of \<open>TaskUpdateViewTestCase\<close>, with an owner field added by the client.\<close>

definition task_data :: "string \<rightharpoonup> string" where
  "task_data = [''title'' \<mapsto> ''Updated Task'', ''description'' \<mapsto> ''Updated Task Description'',
                ''status'' \<mapsto> ''Completed'', ''priority'' \<mapsto> ''High'', ''user'' \<mapsto> ''1'']"

section \<open>Helper lemmas\<close>

lemma get_by_pk_Some: "get_by_pk k qs = Some t \<Longrightarrow> pk t = k \<and> t \<in> set qs"
  by (auto simp: get_by_pk_def find_Some_iff)

lemma get_by_pk_map:
  "get_by_pk k qs = Some t \<Longrightarrow> pk t' = k \<Longrightarrow>
   get_by_pk k (map (\<lambda>r. if pk r = k then t' else r) qs) = Some t'"
  unfolding get_by_pk_def by (induction qs) (auto split: if_splits)

lemma filter_map_other:
  "pk t' = k \<Longrightarrow>
   filter (\<lambda>r. pk r \<noteq> k) (map (\<lambda>r. if pk r = k then t' else r) qs) = filter (\<lambda>r. pk r \<noteq> k) qs"
  by (induction qs) auto

lemma map_pk_map_other:
  "pk t' = k \<Longrightarrow> map pk (map (\<lambda>r. if pk r = k then t' else r) qs) = map pk qs"
  by (induction qs) auto

subsection \<open>The invariant holds in every reachable store\<close>

lemma wf_db_empty: "wf_db empty_database"
  by (simp add: wf_db_def empty_database_def)

lemma wf_db_Task_insert: "wf_db db \<Longrightarrow> wf_db (snd (Task_insert now t db))"
  by (auto simp: wf_db_def Task_insert_def Let_def sorted_wrt_append list_all_iff intro: less_SucI)

lemma wf_db_Task_delete: "wf_db db \<Longrightarrow> wf_db (Task_delete t db)"
  by (auto simp: wf_db_def Task_delete_def list_all_iff sorted_wrt_map intro: sorted_wrt_filter)

lemma map_pk_Task_update: "map pk (task_table (Task_update t db)) = map pk (task_table db)"
  by (simp add: Task_update_def)

lemma wf_db_Task_update: "wf_db db \<Longrightarrow> wf_db (Task_update t db)"
  unfolding wf_db_def map_pk_Task_update
  by (auto simp: Task_update_def list_all_iff)

lemma wf_db_TaskList_view: "wf_db db \<Longrightarrow> wf_db (snd (TaskList_view req db))"
  by (auto simp: TaskList_view_def LoginRequiredMixin_dispatch_def
      split: option.splits http_method.splits)

lemma wf_db_TaskDetail_view: "wf_db db \<Longrightarrow> wf_db (snd (TaskDetail_view k req db))"
  by (auto simp: TaskDetail_view_def LoginRequiredMixin_dispatch_def
      split: option.splits http_method.splits)

lemma wf_db_TaskCreate_view: "wf_db db \<Longrightarrow> wf_db (snd (TaskCreate_view req db))"
  by (auto simp: TaskCreate_view_def LoginRequiredMixin_dispatch_def TaskCreate_form_valid_def
      wf_db_Task_insert split: option.splits http_method.splits sum.splits)

lemma wf_db_TaskUpdate_view: "wf_db db \<Longrightarrow> wf_db (snd (TaskUpdate_view k req db))"
  by (auto simp: TaskUpdate_view_def LoginRequiredMixin_dispatch_def
      wf_db_Task_update split: option.splits http_method.splits sum.splits)

lemma wf_db_TaskDelete_view: "wf_db db \<Longrightarrow> wf_db (snd (TaskDelete_view k req db))"
  by (auto simp: TaskDelete_view_def LoginRequiredMixin_dispatch_def
      wf_db_Task_delete split: option.splits http_method.splits sum.splits)

lemma wf_db_protected_view: "wf_db db \<Longrightarrow> wf_db (snd (protected_view r req db))"
  by (cases r) (simp_all add: wf_db_TaskList_view wf_db_TaskDetail_view wf_db_TaskCreate_view
      wf_db_TaskUpdate_view wf_db_TaskDelete_view)

lemma wf_db_UserRegister_view: "wf_db db \<Longrightarrow> wf_db (snd (snd (UserRegister_view form req db)))"
  by (auto simp: UserRegister_view_def UserRegister_get_def UserRegister_post_def
      UserRegister_form_valid_def User_insert_def wf_db_def Let_def
      split: option.splits http_method.splits sum.splits)

lemma reachable_wf_db: "reachable db \<Longrightarrow> wf_db db"
proof (induction rule: reachable.induct)
  case reachable_empty
  show ?case by (rule wf_db_empty)
next
  case (reachable_create db now kw)
  then show ?case by (simp add: Task_objects_create_def wf_db_Task_insert)
next
  case (reachable_view db r req)
  then show ?case by (simp add: wf_db_protected_view)
next
  case (reachable_register db form req)
  then show ?case by (simp add: wf_db_UserRegister_view)
qed

lemma setUp_db_created:
  "setUp_db =
     snd (Task_objects_create 12
            \<lparr>kw_user = Some 2, kw_title = Some ''Other User Task'', kw_description = None,
             kw_status = None, kw_priority = None\<rparr>
       (snd (Task_objects_create 11
            \<lparr>kw_user = Some 1, kw_title = Some ''Task 2'', kw_description = None,
             kw_status = None, kw_priority = None\<rparr>
       (snd (Task_objects_create 10
            \<lparr>kw_user = Some 1, kw_title = Some ''Task 1'', kw_description = None,
             kw_status = None, kw_priority = None\<rparr>
       (snd (User_insert ''otheruser'' ''pbkdf2_sha256$2''
       (snd (User_insert ''testuser'' ''pbkdf2_sha256$1'' empty_database)))))))))"
  by (simp add: setUp_db_def task1_def task2_def task3_def Task_objects_create_def Task_insert_def
      Task_init_def User_insert_def empty_database_def status_default_def priority_default_def
      Let_def)

lemma wf_db_setUp_db: "wf_db setUp_db"
  by (simp add: wf_db_def setUp_db_def task1_def task2_def task3_def)

subsection \<open>Percent-encoding leaves the paths of the routes alone\<close>












lemma TaskForm_instance_valid:
  "TaskForm_clean data = Inr cd \<Longrightarrow> TaskForm_instance data t = construct_instance cd t"
  by (auto simp: TaskForm_clean_def TaskForm_instance_def construct_instance_def Let_def
      split: sum.splits)

subsection \<open>The task form\<close>

lemma task_data_clean:
  "TaskForm_clean task_data =
     Inr \<lparr>cd_title = Some ''Updated Task'', cd_description = Some ''Updated Task Description'',
          cd_status = ''Completed'', cd_priority = ''High''\<rparr>"
  by (simp add: TaskForm_clean_def task_data_def CharField_clean_def TypedChoiceField_clean_def
      strip_def is_space_def STATUS_CHOICES_def PRIORITY_CHOICES_def Let_def)

lemma TaskForm_clean_ignores_user:
  "TaskForm_clean (data(''user'' \<mapsto> x)) = TaskForm_clean data"
  by (simp add: TaskForm_clean_def)

lemma TaskForm_clean_choices:
  assumes "TaskForm_clean data = Inr cd"
  shows "cd_status cd \<in> {''Pending'', ''Completed''} \<and> cd_priority cd \<in> {''High'', ''Medium'', ''Low''}"
  using assms
  by (auto simp: TaskForm_clean_def TypedChoiceField_clean_def STATUS_CHOICES_def
      PRIORITY_CHOICES_def Let_def split: sum.splits if_splits)

lemma TaskForm_clean_without_status:
  "TaskForm_clean [''title'' \<mapsto> ''Default Task'', ''description'' \<mapsto> ''Default Description'']
   = Inl [(''status'', [''required'']), (''priority'', [''required''])]"
  by (simp add: TaskForm_clean_def CharField_clean_def TypedChoiceField_clean_def
      strip_def is_space_def Let_def)

lemma TaskCreate_view_rows:
  assumes "t \<in> set (task_table (snd (TaskCreate_view req db)))" and "t \<notin> set (task_table db)"
  shows "\<exists>cd. TaskForm_clean (req_POST req) = Inr cd \<and> status t = cd_status cd
              \<and> priority t = cd_priority cd"
  using assms
  by (auto simp: TaskCreate_view_def LoginRequiredMixin_dispatch_def TaskCreate_form_valid_def
      Task_insert_def construct_instance_def Let_def
      split: option.splits http_method.splits sum.splits)

lemma TaskUpdate_view_rows:
  assumes "t \<in> set (task_table (snd (TaskUpdate_view k req db)))" and "t \<notin> set (task_table db)"
  shows "\<exists>cd. TaskForm_clean (req_POST req) = Inr cd \<and> status t = cd_status cd
              \<and> priority t = cd_priority cd"
  using assms
  by (auto simp: TaskUpdate_view_def LoginRequiredMixin_dispatch_def Task_update_def
      construct_instance_def Let_def
      split: option.splits http_method.splits sum.splits if_splits)

lemma TaskUpdate_view_valid:
  assumes "get_by_pk k (task_table db) = Some t" and "req_user req = Some u"
    and "req_method req = POST" and "TaskForm_clean (req_POST req) = Inr cd"
  shows "snd (TaskUpdate_view k req db) = Task_update (construct_instance cd t) db"
  using assms
  by (simp add: TaskUpdate_view_def LoginRequiredMixin_dispatch_def Task_objects_all_def)

lemma TaskUpdate_view_other:
  assumes "\<not> (\<exists>u cd. req_user req = Some u \<and> req_method req = POST
                \<and> TaskForm_clean (req_POST req) = Inr cd)"
  shows "snd (TaskUpdate_view k req db) = db"
  using assms
  by (auto simp: TaskUpdate_view_def LoginRequiredMixin_dispatch_def Task_objects_all_def
      split: option.splits http_method.splits sum.splits)

lemma UserRegister_post_valid:
  assumes "req_method req = POST" and "form (user_table db) (req_POST req) = Inr (name, pw)"
  shows "UserRegister_view form req db =
           (HttpResponseRedirect ''/register/'', req\<lparr>req_user := Some (user_seq db)\<rparr>,
            db\<lparr>user_table := user_table db @ [\<lparr>uid = user_seq db, username = name, password = pw\<rparr>],
               user_seq := Suc (user_seq db)\<rparr>)"
  using assms
  by (simp add: UserRegister_view_def UserRegister_post_def UserRegister_form_valid_def
      User_insert_def login_def register_url_def Let_def)

section \<open>Defaults of a created task\<close>

text \<open>
  C5. A task created with only title and description supplied has priority \<open>'Medium'\<close> and
  status \<open>'Incomplete'\<close>, and \<open>'Incomplete'\<close> is not one of the declared status choices
  \<open>Pending\<close>, \<open>Completed\<close>.
\<close>

theorem C5_default_status_and_priority:
  "priority (fst (Task_objects_create now
       \<lparr>kw_user = u, kw_title = Some ti, kw_description = Some de,
        kw_status = None, kw_priority = None\<rparr> db)) = ''Medium''
   \<and> status (fst (Task_objects_create now
       \<lparr>kw_user = u, kw_title = Some ti, kw_description = Some de,
        kw_status = None, kw_priority = None\<rparr> db)) = ''Incomplete''
   \<and> task_table (snd (Task_objects_create now
       \<lparr>kw_user = u, kw_title = Some ti, kw_description = Some de,
        kw_status = None, kw_priority = None\<rparr> db))
     = task_table db @ [fst (Task_objects_create now
       \<lparr>kw_user = u, kw_title = Some ti, kw_description = Some de,
        kw_status = None, kw_priority = None\<rparr> db)]
   \<and> ''Incomplete'' \<notin> set (map fst STATUS_CHOICES)
   \<and> set (map fst STATUS_CHOICES) = {''Pending'', ''Completed''}"
  by (simp add: Task_objects_create_def Task_insert_def Task_init_def Let_def
      status_default_def priority_default_def STATUS_CHOICES_def)

section \<open>The task list\<close>

text \<open>
  C1. For an authenticated identity, the task list (the context entry \<open>task\<close> of the
  rendered response) holds exactly the tasks of the store whose owner is that identity,
  none of another identity, and it is in creation order: the rows keep the order of the
  table and their primary keys, which the store hands out in creation order, grow.
\<close>

theorem C1_list_owned_in_creation_order:
  assumes "req_user req = Some u" and "req_method req = GET" and "wf_db db"
  shows "TaskList_view req db =
           (TemplateResponse ''todoapp/task_list.html''
              [(''object_list'', QuerySet (task_table db)),
               (''task'', QuerySet (filter (\<lambda>t. user t = Some u) (task_table db)))], db)
         \<and> response_context (fst (TaskList_view req db)) ''task''
             = Some (QuerySet (filter (\<lambda>t. user t = Some u) (task_table db)))
         \<and> (\<forall>t. t \<in> set (filter (\<lambda>t. user t = Some u) (task_table db))
                 \<longleftrightarrow> t \<in> set (task_table db) \<and> user t = Some u)
         \<and> sorted_wrt (\<lambda>a b. pk a < pk b) (filter (\<lambda>t. user t = Some u) (task_table db))"
proof -
  have v: "TaskList_view req db =
           (TemplateResponse ''todoapp/task_list.html''
              [(''object_list'', QuerySet (task_table db)),
               (''task'', QuerySet (filter (\<lambda>t. user t = Some u) (task_table db)))], db)"
    using assms(1,2)
    by (simp add: TaskList_view_def LoginRequiredMixin_dispatch_def TaskList_get_context_data_def
        ListView_get_context_data_def Task_objects_all_def filter_user_def)
  have s: "sorted_wrt (\<lambda>a b. pk a < pk b) (task_table db)"
    using assms(3) by (simp add: wf_db_def sorted_wrt_map)
  have "sorted_wrt (\<lambda>a b. pk a < pk b) (filter (\<lambda>t. user t = Some u) (task_table db))"
    using s by (rule sorted_wrt_filter)
  then show ?thesis
    using v by (simp add: response_context_def)
qed

text \<open>
  The test \<open>test_task_list_authenticated_user\<close>: \<open>testuser\<close> sees \<open>[task1, task2]\<close> and not
  the task of \<open>otheruser\<close>.
\<close>

theorem C1_witness:
  "wf_db setUp_db
   \<and> response_context (fst (TaskList_view
        \<lparr>req_method = GET, req_path = ''/'', req_query = [], req_user = Some 1,
         req_POST = Map.empty, req_now = 20\<rparr> setUp_db)) ''task''
     = Some (QuerySet [task1, task2])
   \<and> sorted_wrt (\<lambda>a b. pk a < pk b) [task1, task2]"
proof -
  let ?req = "\<lparr>req_method = GET, req_path = ''/'', req_query = [], req_user = Some 1,
         req_POST = Map.empty, req_now = 20\<rparr>"
  have h: "req_user ?req = Some 1" "req_method ?req = GET" "wf_db setUp_db"
    by (simp_all add: wf_db_setUp_db)
  have f: "filter (\<lambda>t. user t = Some 1) (task_table setUp_db) = [task1, task2]"
    by (simp add: setUp_db_def task1_def task2_def task3_def)
  note c = C1_list_owned_in_creation_order [OF h, unfolded f]
  from c have a: "response_context (fst (TaskList_view ?req setUp_db)) ''task''
     = Some (QuerySet [task1, task2])"
    by blast
  from c have b: "sorted_wrt (\<lambda>a b. pk a < pk b) [task1, task2]"
    by blast
  show ?thesis
    using h(3) a b by blast
qed

section \<open>Access to a task by its primary key\<close>

text \<open>
  C2. For an authenticated identity \<open>u\<close> and the key \<open>k\<close> of an existing task \<open>t\<close>, whoever
  owns \<open>t\<close>: the detail view renders \<open>t\<close>, the update view with a valid form overwrites the
  row of \<open>k\<close> and redirects to the task list, and the delete view removes the row of \<open>k\<close>
  and redirects to the task list. Nothing compares \<open>u\<close> with the owner of \<open>t\<close>.
\<close>

theorem C2_by_id_without_ownership_check:
  assumes "req_user req = Some u" and "get_by_pk k (task_table db) = Some t"
  shows "TaskDetail_view k (req\<lparr>req_method := GET\<rparr>) db =
           (TemplateResponse ''todoapp/task.html'' [(''object'', Instance t), (''task'', Instance t)], db)
         \<and> (\<forall>cd. TaskForm_clean (req_POST req) = Inr cd \<longrightarrow>
               TaskUpdate_view k (req\<lparr>req_method := POST\<rparr>) db =
                 (HttpResponseRedirect ''/'',
                  db\<lparr>task_table :=
                       map (\<lambda>r. if pk r = k then construct_instance cd t else r) (task_table db)\<rparr>))
         \<and> TaskDelete_view k (req\<lparr>req_method := POST\<rparr>) db =
             (HttpResponseRedirect ''/'', db\<lparr>task_table := filter (\<lambda>r. pk r \<noteq> k) (task_table db)\<rparr>)"
proof -
  have k: "pk t = k" using assms(2) get_by_pk_Some by blast
  show ?thesis
    using assms k
    by (simp add: TaskDetail_view_def TaskUpdate_view_def TaskDelete_view_def
        LoginRequiredMixin_dispatch_def Task_objects_all_def object_context_def task_url_def
        Task_update_def Task_delete_def construct_instance_def)
qed

text \<open>\<open>otheruser\<close> (key 2) views, updates and deletes \<open>task1\<close>, which \<open>testuser\<close> owns.\<close>

theorem C2_witness:
  "user task1 \<noteq> Some 2
   \<and> TaskDetail_view 1
       \<lparr>req_method = GET, req_path = ''/task/1/'', req_query = [], req_user = Some 2,
        req_POST = task_data, req_now = 20\<rparr> setUp_db
     = (TemplateResponse ''todoapp/task.html'' [(''object'', Instance task1), (''task'', Instance task1)],
        setUp_db)
   \<and> TaskUpdate_view 1
       \<lparr>req_method = POST, req_path = ''/task/1/'', req_query = [], req_user = Some 2,
        req_POST = task_data, req_now = 20\<rparr> setUp_db
     = (HttpResponseRedirect ''/'',
        setUp_db\<lparr>task_table :=
          [task1\<lparr>title := Some ''Updated Task'', description := Some ''Updated Task Description'',
                 status := ''Completed'', priority := ''High''\<rparr>, task2, task3]\<rparr>)
   \<and> TaskDelete_view 1
       \<lparr>req_method = POST, req_path = ''/task/1/'', req_query = [], req_user = Some 2,
        req_POST = task_data, req_now = 20\<rparr> setUp_db
     = (HttpResponseRedirect ''/'', setUp_db\<lparr>task_table := [task2, task3]\<rparr>)"
  using C2_by_id_without_ownership_check [of
      "\<lparr>req_method = GET, req_path = ''/task/1/'', req_query = [], req_user = Some 2,
        req_POST = task_data, req_now = 20\<rparr>" 2 1 setUp_db task1]
  by (simp add: task_data_clean get_by_pk_def setUp_db_def task1_def task2_def task3_def
      construct_instance_def)

text \<open>
  C3. The claim is that view, update and delete of a task succeed only for its owner. In
  the store of the tests' fixture \<open>task3\<close> belongs to \<open>otheruser\<close> (key 2); \<open>testuser\<close>
  (key 1) is shown it by the detail view, overwrites it through the update view and
  deletes it through the delete view.
\<close>

theorem C3_non_owner_views_updates_deletes:
  "user task3 = Some 2
   \<and> TaskDetail_view 3
       \<lparr>req_method = GET, req_path = ''/task/3/'', req_query = [], req_user = Some 1,
        req_POST = Map.empty, req_now = 20\<rparr> setUp_db
     = (TemplateResponse ''todoapp/task.html'' [(''object'', Instance task3), (''task'', Instance task3)],
        setUp_db)
   \<and> TaskUpdate_view 3
       \<lparr>req_method = POST, req_path = ''/task-update/3/'', req_query = [], req_user = Some 1,
        req_POST = task_data, req_now = 20\<rparr> setUp_db
     = (HttpResponseRedirect ''/'',
        setUp_db\<lparr>task_table :=
          [task1, task2,
           task3\<lparr>title := Some ''Updated Task'', description := Some ''Updated Task Description'',
                 status := ''Completed'', priority := ''High''\<rparr>]\<rparr>)
   \<and> TaskDelete_view 3
       \<lparr>req_method = POST, req_path = ''/task-delete/3/'', req_query = [], req_user = Some 1,
        req_POST = Map.empty, req_now = 20\<rparr> setUp_db
     = (HttpResponseRedirect ''/'', setUp_db\<lparr>task_table := [task1, task2]\<rparr>)"
  by (simp add: TaskDetail_view_def TaskUpdate_view_def TaskDelete_view_def
      LoginRequiredMixin_dispatch_def Task_objects_all_def object_context_def task_url_def
      Task_update_def Task_delete_def construct_instance_def task_data_clean
      get_by_pk_def setUp_db_def task1_def task2_def task3_def)

section \<open>Creating and updating a task\<close>

text \<open>
  C4. A task created through the create view is owned by the requesting identity: a POST
  of an authenticated identity \<open>u\<close> with a valid form appends one row whose owner is \<open>u\<close>;
  an owner value in the submitted data changes nothing; and whatever the request, the
  view either leaves the table as it is or appends one row owned by the requester.
\<close>

theorem C4_create_binds_owner:
  "(req_user req = Some u \<and> req_method req = POST \<and> TaskForm_clean (req_POST req) = Inr cd \<longrightarrow>
      TaskCreate_view req db =
        (HttpResponseRedirect ''/'',
         db\<lparr>task_table := task_table db @
               [\<lparr>pk = task_seq db, user = Some u, title = cd_title cd,
                 description = cd_description cd, status = cd_status cd,
                 created = req_now req, priority = cd_priority cd\<rparr>],
            task_seq := Suc (task_seq db)\<rparr>))
   \<and> TaskCreate_view (req\<lparr>req_POST := (req_POST req)(''user'' \<mapsto> x)\<rparr>) db = TaskCreate_view req db
   \<and> (task_table (snd (TaskCreate_view req db)) = task_table db
      \<or> (\<exists>t. task_table (snd (TaskCreate_view req db)) = task_table db @ [t]
             \<and> user t = req_user req \<and> req_user req \<noteq> None))"
  by (auto simp: TaskCreate_view_def LoginRequiredMixin_dispatch_def TaskCreate_form_valid_def
      Task_insert_def construct_instance_def Task_init_def no_kwargs_def task_url_def Let_def
      TaskForm_clean_ignores_user handle_no_permission_def get_full_path_def
      split: option.splits http_method.splits sum.splits)

text \<open>\<open>otheruser\<close> (key 2) posts a form that names user 1 as the owner: the row is owned by 2.\<close>

theorem C4_witness:
  "task_data ''user'' = Some ''1''
   \<and> TaskCreate_view
       \<lparr>req_method = POST, req_path = ''/task-create/'', req_query = [], req_user = Some 2,
        req_POST = task_data, req_now = 20\<rparr> setUp_db
     = (HttpResponseRedirect ''/'',
        setUp_db\<lparr>task_table := [task1, task2, task3,
            \<lparr>pk = 4, user = Some 2, title = Some ''Updated Task'',
             description = Some ''Updated Task Description'', status = ''Completed'',
             created = 20, priority = ''High''\<rparr>],
          task_seq := 5\<rparr>)"
proof -
  let ?req = "\<lparr>req_method = POST, req_path = ''/task-create/'', req_query = [], req_user = Some 2,
        req_POST = task_data, req_now = 20\<rparr>"
  have h: "req_user ?req = Some 2 \<and> req_method ?req = POST \<and>
    TaskForm_clean (req_POST ?req) =
       Inr \<lparr>cd_title = Some ''Updated Task'', cd_description = Some ''Updated Task Description'',
            cd_status = ''Completed'', cd_priority = ''High''\<rparr>"
    by (simp add: task_data_clean)
  have "task_data ''user'' = Some ''1''"
    by (simp add: task_data_def)
  then show ?thesis
    using h C4_create_binds_owner [of ?req 2
       "\<lparr>cd_title = Some ''Updated Task'', cd_description = Some ''Updated Task Description'',
            cd_status = ''Completed'', cd_priority = ''High''\<rparr>" setUp_db, THEN conjunct1]
    by (simp add: setUp_db_def)
qed

text \<open>
  C7. For the key \<open>k\<close> of an existing task \<open>t\<close>, whatever the request to the update view:
  afterwards the row of \<open>k\<close> still has the primary key, the owner and the creation time
  of \<open>t\<close>, the rows of the other keys and the sequence of keys are as before, and after a
  valid POST the row of \<open>k\<close> is \<open>t\<close> with title, description, status and priority set
  to the cleaned values of the form.
\<close>

theorem C7_update_frame:
  assumes "get_by_pk k (task_table db) = Some t"
  shows "(\<exists>t'. get_by_pk k (task_table (snd (TaskUpdate_view k req db))) = Some t'
               \<and> pk t' = pk t \<and> user t' = user t \<and> created t' = created t)
         \<and> filter (\<lambda>r. pk r \<noteq> k) (task_table (snd (TaskUpdate_view k req db)))
             = filter (\<lambda>r. pk r \<noteq> k) (task_table db)
         \<and> map pk (task_table (snd (TaskUpdate_view k req db))) = map pk (task_table db)
         \<and> (req_user req = Some u \<and> req_method req = POST \<and> TaskForm_clean (req_POST req) = Inr cd
              \<longrightarrow> get_by_pk k (task_table (snd (TaskUpdate_view k req db)))
                    = Some (t\<lparr>title := cd_title cd, description := cd_description cd,
                               status := cd_status cd, priority := cd_priority cd\<rparr>))"
proof (cases "\<exists>u cd. req_user req = Some u \<and> req_method req = POST
                \<and> TaskForm_clean (req_POST req) = Inr cd")
  case True
  then obtain u' cd' where v: "req_user req = Some u'" "req_method req = POST"
      "TaskForm_clean (req_POST req) = Inr cd'"
    by blast
  have k: "pk t = k" using assms get_by_pk_Some by blast
  have upd: "snd (TaskUpdate_view k req db) = Task_update (construct_instance cd' t) db"
    using assms v by (rule TaskUpdate_view_valid)
  have pk': "pk (construct_instance cd' t) = k"
    using k by (simp add: construct_instance_def)
  have tt: "task_table (Task_update (construct_instance cd' t) db)
            = map (\<lambda>r. if pk r = k then construct_instance cd' t else r) (task_table db)"
    using pk' by (simp add: Task_update_def)
  have g: "get_by_pk k (task_table (snd (TaskUpdate_view k req db))) = Some (construct_instance cd' t)"
    unfolding upd tt using assms pk' by (rule get_by_pk_map)
  have f: "filter (\<lambda>r. pk r \<noteq> k) (task_table (snd (TaskUpdate_view k req db)))
           = filter (\<lambda>r. pk r \<noteq> k) (task_table db)"
    unfolding upd tt using pk' by (rule filter_map_other)
  have m: "map pk (task_table (snd (TaskUpdate_view k req db))) = map pk (task_table db)"
    unfolding upd tt using pk' by (rule map_pk_map_other)
  show ?thesis
    using g f m v by (auto simp: construct_instance_def)
next
  case False
  then have "snd (TaskUpdate_view k req db) = db"
    by (rule TaskUpdate_view_other)
  then show ?thesis using assms False by auto
qed

text \<open>
  The update of \<open>TaskUpdateViewTestCase\<close> on \<open>task1\<close>: key 1, owner 1 and creation time 10
  stay, the four form fields change, \<open>task2\<close> and \<open>task3\<close> stay.
\<close>

theorem C7_witness:
  "get_by_pk 1 (task_table setUp_db) = Some task1
   \<and> get_by_pk 1 (task_table (snd (TaskUpdate_view 1
        \<lparr>req_method = POST, req_path = ''/task-update/1/'', req_query = [], req_user = Some 1,
         req_POST = task_data, req_now = 20\<rparr> setUp_db)))
     = Some \<lparr>pk = 1, user = Some 1, title = Some ''Updated Task'',
             description = Some ''Updated Task Description'', status = ''Completed'',
             created = 10, priority = ''High''\<rparr>
   \<and> filter (\<lambda>r. pk r \<noteq> 1) (task_table (snd (TaskUpdate_view 1
        \<lparr>req_method = POST, req_path = ''/task-update/1/'', req_query = [], req_user = Some 1,
         req_POST = task_data, req_now = 20\<rparr> setUp_db)))
     = [task2, task3]"
proof -
  let ?req = "\<lparr>req_method = POST, req_path = ''/task-update/1/'', req_query = [], req_user = Some 1,
         req_POST = task_data, req_now = 20\<rparr>"
  have h: "get_by_pk 1 (task_table setUp_db) = Some task1"
    by (simp add: get_by_pk_def setUp_db_def task1_def)
  have v: "req_user ?req = Some 1 \<and> req_method ?req = POST \<and> TaskForm_clean (req_POST ?req) =
       Inr \<lparr>cd_title = Some ''Updated Task'', cd_description = Some ''Updated Task Description'',
            cd_status = ''Completed'', cd_priority = ''High''\<rparr>"
    by (simp add: task_data_clean)
  show ?thesis
    using h v C7_update_frame [OF h, of ?req 1
        "\<lparr>cd_title = Some ''Updated Task'', cd_description = Some ''Updated Task Description'',
            cd_status = ''Completed'', cd_priority = ''High''\<rparr>"]
    by (simp add: setUp_db_def task1_def task2_def task3_def)
qed

text \<open>
  C9. A row that the create view or the update view writes (a row of the table after
  the request that was not there before) has a status among \<open>Pending\<close>, \<open>Completed\<close> and a
  priority among \<open>High\<close>, \<open>Medium\<close>, \<open>Low\<close>; in particular its status is not the default
  \<open>Incomplete\<close>, whatever the submitted data.
\<close>

theorem C9_handlers_store_declared_choices:
  "(\<forall>t\<in>set (task_table (snd (TaskCreate_view req db))). t \<notin> set (task_table db) \<longrightarrow>
       status t \<in> {''Pending'', ''Completed''} \<and> priority t \<in> {''High'', ''Medium'', ''Low''}
       \<and> status t \<noteq> ''Incomplete'')
   \<and> (\<forall>t\<in>set (task_table (snd (TaskUpdate_view k req db))). t \<notin> set (task_table db) \<longrightarrow>
       status t \<in> {''Pending'', ''Completed''} \<and> priority t \<in> {''High'', ''Medium'', ''Low''}
       \<and> status t \<noteq> ''Incomplete'')"
proof -
  have "status t \<in> {''Pending'', ''Completed''} \<and> priority t \<in> {''High'', ''Medium'', ''Low''}
       \<and> status t \<noteq> ''Incomplete''"
    if "\<exists>cd. TaskForm_clean (req_POST req) = Inr cd \<and> status t = cd_status cd
              \<and> priority t = cd_priority cd" for t
  proof -
    from that obtain cd where "TaskForm_clean (req_POST req) = Inr cd"
      and "status t = cd_status cd" and "priority t = cd_priority cd" by blast
    then show ?thesis using TaskForm_clean_choices [of "req_POST req" cd] by auto
  qed
  then show ?thesis
    using TaskCreate_view_rows TaskUpdate_view_rows by blast
qed

text \<open>
  The row that \<open>testuser\<close> creates with the tests' form data, and the row of \<open>task1\<close> after
  the update with the same data, are new rows with status \<open>Completed\<close> and priority \<open>High\<close>.
\<close>

theorem C9_witness:
  "(\<exists>t\<in>set (task_table (snd (TaskCreate_view
        \<lparr>req_method = POST, req_path = ''/task-create/'', req_query = [], req_user = Some 1,
         req_POST = task_data, req_now = 20\<rparr> setUp_db))).
      t \<notin> set (task_table setUp_db) \<and> status t = ''Completed'' \<and> priority t = ''High''
      \<and> status t \<in> {''Pending'', ''Completed''} \<and> priority t \<in> {''High'', ''Medium'', ''Low''})
   \<and> (\<exists>t\<in>set (task_table (snd (TaskUpdate_view 1
        \<lparr>req_method = POST, req_path = ''/task-create/'', req_query = [], req_user = Some 1,
         req_POST = task_data, req_now = 20\<rparr> setUp_db))).
      t \<notin> set (task_table setUp_db) \<and> status t = ''Completed'' \<and> priority t = ''High''
      \<and> status t \<in> {''Pending'', ''Completed''} \<and> priority t \<in> {''High'', ''Medium'', ''Low''})"
proof -
  let ?req = "\<lparr>req_method = POST, req_path = ''/task-create/'', req_query = [], req_user = Some 1,
         req_POST = task_data, req_now = 20\<rparr>"
  let ?new = "\<lparr>pk = 4, user = Some 1, title = Some ''Updated Task'',
             description = Some ''Updated Task Description'', status = ''Completed'',
             created = 20, priority = ''High''\<rparr>"
  let ?upd = "\<lparr>pk = 1, user = Some 1, title = Some ''Updated Task'',
             description = Some ''Updated Task Description'', status = ''Completed'',
             created = 10, priority = ''High''\<rparr>"
  have c: "?new \<in> set (task_table (snd (TaskCreate_view ?req setUp_db)))"
    by (simp add: TaskCreate_view_def LoginRequiredMixin_dispatch_def TaskCreate_form_valid_def
        Task_insert_def construct_instance_def Task_init_def no_kwargs_def Let_def
        task_data_clean setUp_db_def)
  have u: "?upd \<in> set (task_table (snd (TaskUpdate_view 1 ?req setUp_db)))"
    by (simp add: TaskUpdate_view_def LoginRequiredMixin_dispatch_def Task_objects_all_def
        Task_update_def construct_instance_def get_by_pk_def task_data_clean
        setUp_db_def task1_def task2_def task3_def)
  have n: "?new \<notin> set (task_table setUp_db)" "?upd \<notin> set (task_table setUp_db)"
    by (simp_all add: setUp_db_def task1_def task2_def task3_def)
  note C9_handlers_store_declared_choices [of ?req setUp_db 1]
  then have "status ?new \<in> {''Pending'', ''Completed''} \<and> priority ?new \<in> {''High'', ''Medium'', ''Low''}"
    and "status ?upd \<in> {''Pending'', ''Completed''} \<and> priority ?upd \<in> {''High'', ''Medium'', ''Low''}"
    using c u n by blast+
  then show ?thesis
    using c u n by (intro conjI bexI [of _ ?new] bexI [of _ ?upd]) simp_all
qed

section \<open>Requests without a session\<close>




section \<open>Registration\<close>

text \<open>
  C8. A GET of the registration view by a requester with a session redirects to the
  task list; the request and the store are returned as they were, so no user is created,
  and the result is the same for every form, so the form is not consulted.
\<close>

theorem C8_register_get_authenticated:
  assumes "req_user req = Some u" and "req_method req = GET"
  shows "UserRegister_view form req db = (HttpResponseRedirect ''/'', req, db)"
  using assms
  by (simp add: UserRegister_view_def UserRegister_get_def is_authenticated_def task_url_def)

text \<open>
  The test \<open>test_register_authenticated_user\<close>, with a form that would accept any data:
  the user table is as before.
\<close>

theorem C8_witness:
  "UserRegister_view (\<lambda>users data. Inr (''newuser'', ''pbkdf2_sha256$3''))
     \<lparr>req_method = GET, req_path = ''/register/'', req_query = [], req_user = Some 1,
      req_POST = [''username'' \<mapsto> ''newuser''], req_now = 20\<rparr> setUp_db
   = (HttpResponseRedirect ''/'',
      \<lparr>req_method = GET, req_path = ''/register/'', req_query = [], req_user = Some 1,
       req_POST = [''username'' \<mapsto> ''newuser''], req_now = 20\<rparr>, setUp_db)
   \<and> user_table (snd (snd (UserRegister_view (\<lambda>users data. Inr (''newuser'', ''pbkdf2_sha256$3''))
     \<lparr>req_method = GET, req_path = ''/register/'', req_query = [], req_user = Some 1,
      req_POST = [''username'' \<mapsto> ''newuser''], req_now = 20\<rparr> setUp_db))) = user_table setUp_db"
  using C8_register_get_authenticated [of
     "\<lparr>req_method = GET, req_path = ''/register/'', req_query = [], req_user = Some 1,
      req_POST = [''username'' \<mapsto> ''newuser''], req_now = 20\<rparr>" 1
     "\<lambda>users data. Inr (''newuser'', ''pbkdf2_sha256$3'')" setUp_db]
  by simp

section \<open>Tasks without an owner\<close>

text \<open>
  C10. The store takes a task without an owner: \<open>Task.objects.create\<close> without a user
  appends a row whose \<open>user\<close> is NULL. And whatever the request and the store, no task of
  the list that the list view puts into the context is without an owner: each is owned
  by the requesting identity.
\<close>

theorem C10_ownerless_task_never_listed:
  "user (fst (Task_objects_create now (kw\<lparr>kw_user := None\<rparr>) db)) = None
   \<and> task_table (snd (Task_objects_create now (kw\<lparr>kw_user := None\<rparr>) db))
       = task_table db @ [fst (Task_objects_create now (kw\<lparr>kw_user := None\<rparr>) db)]
   \<and> (\<forall>qs. response_context (fst (TaskList_view req db)) ''task'' = Some (QuerySet qs) \<longrightarrow>
         (\<forall>t\<in>set qs. user t \<noteq> None \<and> user t = req_user req))"
  by (auto simp: Task_objects_create_def Task_insert_def Task_init_def Let_def
      TaskList_view_def LoginRequiredMixin_dispatch_def TaskList_get_context_data_def
      ListView_get_context_data_def Task_objects_all_def filter_user_def response_context_def
      handle_no_permission_def redirect_to_login_def
      split: option.splits http_method.splits)

text \<open>
  An ownerless task is added to the store of the fixture; the list of \<open>testuser\<close> is
  still \<open>[task1, task2]\<close>.
\<close>

theorem C10_witness:
  "user (fst (Task_objects_create 30 no_kwargs setUp_db)) = None
   \<and> fst (Task_objects_create 30 no_kwargs setUp_db)
       \<in> set (task_table (snd (Task_objects_create 30 no_kwargs setUp_db)))
   \<and> response_context (fst (TaskList_view
        \<lparr>req_method = GET, req_path = ''/'', req_query = [], req_user = Some 1,
         req_POST = Map.empty, req_now = 40\<rparr>
        (snd (Task_objects_create 30 no_kwargs setUp_db)))) ''task''
      = Some (QuerySet [task1, task2])
   \<and> user task1 \<noteq> None \<and> user task2 \<noteq> None"
proof -
  let ?req = "\<lparr>req_method = GET, req_path = ''/'', req_query = [], req_user = Some 1,
         req_POST = Map.empty, req_now = 40\<rparr>"
  let ?db = "snd (Task_objects_create 30 no_kwargs setUp_db)"
  have k: "no_kwargs\<lparr>kw_user := None\<rparr> = no_kwargs"
    by (simp add: no_kwargs_def)
  have l: "response_context (fst (TaskList_view ?req ?db)) ''task'' = Some (QuerySet [task1, task2])"
    by (simp add: TaskList_view_def LoginRequiredMixin_dispatch_def TaskList_get_context_data_def
        ListView_get_context_data_def Task_objects_all_def filter_user_def response_context_def
        Task_objects_create_def Task_insert_def Task_init_def no_kwargs_def Let_def
        setUp_db_def task1_def task2_def task3_def)
  have a: "user (fst (Task_objects_create 30 no_kwargs setUp_db)) = None
     \<and> fst (Task_objects_create 30 no_kwargs setUp_db)
       \<in> set (task_table (snd (Task_objects_create 30 no_kwargs setUp_db)))"
    using C10_ownerless_task_never_listed [of 30 no_kwargs setUp_db] unfolding k by simp
  have "\<forall>t\<in>set [task1, task2]. user t \<noteq> None"
    using C10_ownerless_task_never_listed [of 30 no_kwargs ?db ?req] l by blast
  then have "user task1 \<noteq> None \<and> user task2 \<noteq> None"
    by simp
  then show ?thesis using a l by blast
qed

end
